theory Spec2Isabelle
  imports Main "HOL-Library.Word"
begin

unbundle bit_operations_syntax

section \<open>Data model of \<open>SceneManager.cpp\<close>\<close>

text \<open>
  \<open>GLuint\<close> is a 32-bit unsigned integer. A C++ \<open>float\<close> is carried around by the
  functions modelled here but never computed with, so it is represented by its 32-bit
  pattern: copying a float copies the pattern. All arithmetic on floats happens inside
  GLM, which is a parameter of the one function that calls it.
\<close>

type_synonym GLuint = "32 word"
type_synonym float = "32 word"

text \<open>
  One entry of the texture table \<open>m_textureIDs\<close>. The handle is written by
  \<open>glGenTextures(1, &m_textureIDs[i].ID)\<close>, hence a \<open>GLuint\<close>.
\<close>

record TEXTURE_INFO =
  tag :: string
  ID :: GLuint

text \<open>\<open>glm::vec3\<close> and \<open>glm::vec4\<close>: three and four float components.\<close>

datatype vec3 = vec3 float float float

datatype vec4 = vec4 float float float float

text \<open>\<open>glm::mat3\<close> and \<open>glm::mat4\<close>: three and four columns.\<close>

datatype mat3 = mat3 vec3 vec3 vec3

datatype mat4 = mat4 vec4 vec4 vec4 vec4

text \<open>The fields of \<open>OBJECT_MATERIAL\<close> that the source reads or writes.\<close>

record OBJECT_MATERIAL =
  diffuseColor :: vec3
  specularColor :: vec3
  shininess :: float
  tag :: string

text \<open>
  Modelled from the spec: the shader uniform interface (class \<open>ShaderManager\<close>, whose code
  is not part of the sources) is a named-property bag, keyed by strings, that accepts
  integers, scalars, vectors, matrices and sampler indices. A write replaces the value
  staged under that name.
\<close>

datatype uniform =
    IntValue int
  | FloatValue float
  | Vec3Value vec3
  | Vec4Value vec4
  | Mat3Value mat3
  | Mat4Value mat4
  | Sampler2DValue int

type_synonym ShaderManager = "string \<Rightarrow> uniform option"

definition setIntValue :: "string \<Rightarrow> int \<Rightarrow> ShaderManager \<Rightarrow> ShaderManager" where
  "setIntValue name v sh = sh(name \<mapsto> IntValue v)"

definition setFloatValue :: "string \<Rightarrow> float \<Rightarrow> ShaderManager \<Rightarrow> ShaderManager" where
  "setFloatValue name v sh = sh(name \<mapsto> FloatValue v)"

definition setVec3Value :: "string \<Rightarrow> vec3 \<Rightarrow> ShaderManager \<Rightarrow> ShaderManager" where
  "setVec3Value name v sh = sh(name \<mapsto> Vec3Value v)"

definition setVec4Value :: "string \<Rightarrow> vec4 \<Rightarrow> ShaderManager \<Rightarrow> ShaderManager" where
  "setVec4Value name v sh = sh(name \<mapsto> Vec4Value v)"

definition setMat3Value :: "string \<Rightarrow> mat3 \<Rightarrow> ShaderManager \<Rightarrow> ShaderManager" where
  "setMat3Value name v sh = sh(name \<mapsto> Mat3Value v)"

definition setMat4Value :: "string \<Rightarrow> mat4 \<Rightarrow> ShaderManager \<Rightarrow> ShaderManager" where
  "setMat4Value name v sh = sh(name \<mapsto> Mat4Value v)"

definition g_ModelName :: string where
  "g_ModelName = ''model''"

definition g_ColorValueName :: string where
  "g_ColorValueName = ''objectColor''"

definition g_UseTextureName :: string where
  "g_UseTextureName = ''bUseTexture''"

text \<open>
  The members of \<open>SceneManager\<close> used by the texture and material code.
  \<open>m_pShaderManager\<close> is a pointer that may be \<open>NULL\<close> (\<open>None\<close>); \<open>m_textureIDs\<close> is the
  fixed array of 16 entries (a list whose length is the extent of the array);
  \<open>m_objectMaterials\<close> is the \<open>std::vector\<close> of materials.
\<close>

record SceneManager =
  m_pShaderManager :: "ShaderManager option"
  m_textureIDs :: "TEXTURE_INFO list"
  m_loadedTextures :: int
  m_objectMaterials :: "OBJECT_MATERIAL list"

text \<open>
  Undefined behaviour of the C++ code is a value of the model: an access to
  \<open>m_textureIDs\<close> outside the array, and a call through a null \<open>m_pShaderManager\<close>.
\<close>

datatype fault = ArrayOverrun | NullDereference

definition slot_read :: "TEXTURE_INFO list \<Rightarrow> int \<Rightarrow> fault + TEXTURE_INFO" where
  "slot_read arr i =
     (if 0 \<le> i \<and> i < int (length arr) then Inr (arr ! nat i) else Inl ArrayOverrun)"

definition slot_update ::
  "TEXTURE_INFO list \<Rightarrow> int \<Rightarrow> (TEXTURE_INFO \<Rightarrow> TEXTURE_INFO) \<Rightarrow> fault + TEXTURE_INFO list"
  where
  "slot_update arr i f =
     (if 0 \<le> i \<and> i < int (length arr) then Inr (arr[nat i := f (arr ! nat i)])
      else Inl ArrayOverrun)"

text \<open>The constructor: every slot is tagged \<open>"/0"\<close> with handle \<open>-1\<close>, no texture loaded.\<close>

definition SceneManager_ctor :: "ShaderManager option \<Rightarrow> SceneManager" where
  "SceneManager_ctor pShaderManager =
     \<lparr> m_pShaderManager = pShaderManager,
       m_textureIDs = replicate 16 \<lparr> TEXTURE_INFO.tag = ''/0'', ID = - 1 \<rparr>,
       m_loadedTextures = 0,
       m_objectMaterials = [] \<rparr>"

section \<open>Texture lookup\<close>

text \<open>
  \<open>FindTextureID\<close>: the \<open>while\<close> loop with its three locals. The handle is converted
  from \<open>GLuint\<close> to the \<open>int\<close> result, that is, read as two's complement.
\<close>

function FindTextureID_loop ::
  "SceneManager \<Rightarrow> string \<Rightarrow> int \<Rightarrow> int \<Rightarrow> bool \<Rightarrow> fault + int" where
  "FindTextureID_loop s tg textureID index bFound =
     (if index < m_loadedTextures s \<and> bFound = False then
        (case slot_read (m_textureIDs s) index of
           Inl e \<Rightarrow> Inl e
         | Inr t \<Rightarrow>
             if TEXTURE_INFO.tag t = tg
             then FindTextureID_loop s tg (sint (ID t)) index True
             else FindTextureID_loop s tg textureID (index + 1) bFound)
      else Inr textureID)"
  by pat_completeness auto
termination
  by (relation "measure (\<lambda>(s, tg, textureID, index, bFound).
        nat (m_loadedTextures s - index) + (if bFound then 0 else 1))") auto

declare FindTextureID_loop.simps [simp del]

definition FindTextureID :: "SceneManager \<Rightarrow> string \<Rightarrow> fault + int" where
  "FindTextureID s tg = FindTextureID_loop s tg (- 1) 0 False"

function FindTextureSlot_loop ::
  "SceneManager \<Rightarrow> string \<Rightarrow> int \<Rightarrow> int \<Rightarrow> bool \<Rightarrow> fault + int" where
  "FindTextureSlot_loop s tg textureSlot index bFound =
     (if index < m_loadedTextures s \<and> bFound = False then
        (case slot_read (m_textureIDs s) index of
           Inl e \<Rightarrow> Inl e
         | Inr t \<Rightarrow>
             if TEXTURE_INFO.tag t = tg
             then FindTextureSlot_loop s tg index index True
             else FindTextureSlot_loop s tg textureSlot (index + 1) bFound)
      else Inr textureSlot)"
  by pat_completeness auto
termination
  by (relation "measure (\<lambda>(s, tg, textureSlot, index, bFound).
        nat (m_loadedTextures s - index) + (if bFound then 0 else 1))") auto

declare FindTextureSlot_loop.simps [simp del]

definition FindTextureSlot :: "SceneManager \<Rightarrow> string \<Rightarrow> fault + int" where
  "FindTextureSlot s tg = FindTextureSlot_loop s tg (- 1) 0 False"

section \<open>Loading and destroying textures\<close>

text \<open>
  What \<open>stbi_load\<close> hands back when it can decode the file: the three out-parameters and
  the pixel data. A null result is \<open>None\<close>.
\<close>

record image =
  width :: int
  height :: int
  colorChannels :: int
  pixels :: "8 word list"

text \<open>
  The GPU is seen through the calls made to it, in order. \<open>GlDeleteTextures\<close> is the call
  that frees a texture name. The name that \<open>glGenTextures\<close> writes is chosen by the
  driver; it is a parameter \<open>drv\<close> of the functions below, applied to the calls made so
  far.
\<close>

datatype gl_pname =
  GL_TEXTURE_WRAP_S | GL_TEXTURE_WRAP_T | GL_TEXTURE_MIN_FILTER | GL_TEXTURE_MAG_FILTER

datatype gl_param = GL_REPEAT | GL_LINEAR

datatype gl_format = GL_RGB8 | GL_RGB | GL_RGBA8 | GL_RGBA

datatype gl_call =
    GlGenTextures GLuint
  | GlBindTexture GLuint
  | GlTexParameteri gl_pname gl_param
  | GlTexImage2D gl_format int int gl_format "8 word list"
  | GlGenerateMipmap
  | GlDeleteTextures GLuint

text \<open>
  \<open>CreateGLTexture\<close>. The result is the returned \<open>bool\<close> with the object and the GPU
  calls after the call, or the fault when the registration writes outside
  \<open>m_textureIDs\<close>. Console output is left out.
\<close>

definition register_texture ::
  "GLuint \<Rightarrow> string \<Rightarrow> SceneManager \<Rightarrow> fault + SceneManager" where
  "register_texture textureID tg s =
     (case slot_update (m_textureIDs s) (m_loadedTextures s) (\<lambda>t. t\<lparr>ID := textureID\<rparr>) of
        Inl e \<Rightarrow> Inl e
      | Inr arr1 \<Rightarrow>
          (case slot_update arr1 (m_loadedTextures s) (\<lambda>t. t\<lparr>TEXTURE_INFO.tag := tg\<rparr>) of
             Inl e \<Rightarrow> Inl e
           | Inr arr2 \<Rightarrow>
               Inr (s\<lparr>m_textureIDs := arr2, m_loadedTextures := m_loadedTextures s + 1\<rparr>)))"

definition CreateGLTexture ::
  "(string \<Rightarrow> image option) \<Rightarrow> (gl_call list \<Rightarrow> GLuint) \<Rightarrow> string \<Rightarrow> string \<Rightarrow>
   SceneManager \<times> gl_call list \<Rightarrow> fault + (bool \<times> SceneManager \<times> gl_call list)" where
  "CreateGLTexture stbi_load drv filename tg sg =
     (case sg of (s, gl) \<Rightarrow>
       (case stbi_load filename of
          None \<Rightarrow> Inr (False, s, gl)
        | Some img \<Rightarrow>
            (let textureID = drv gl;
                 gl1 = gl @ [GlGenTextures textureID, GlBindTexture textureID,
                             GlTexParameteri GL_TEXTURE_WRAP_S GL_REPEAT,
                             GlTexParameteri GL_TEXTURE_WRAP_T GL_REPEAT,
                             GlTexParameteri GL_TEXTURE_MIN_FILTER GL_LINEAR,
                             GlTexParameteri GL_TEXTURE_MAG_FILTER GL_LINEAR];
                 finish = (\<lambda>gl2.
                   (case register_texture textureID tg s of
                      Inl e \<Rightarrow> Inl e
                    | Inr s' \<Rightarrow> Inr (True, s', gl2 @ [GlGenerateMipmap, GlBindTexture 0])))
             in if colorChannels img = 3 then
                  finish (gl1 @ [GlTexImage2D GL_RGB8 (width img) (height img) GL_RGB
                                   (pixels img)])
                else if colorChannels img = 4 then
                  finish (gl1 @ [GlTexImage2D GL_RGBA8 (width img) (height img) GL_RGBA
                                   (pixels img)])
                else Inr (False, s, gl1))))"

text \<open>
  \<open>DestroyGLTextures\<close>: for every loaded slot, \<open>glGenTextures(1, &m_textureIDs[i].ID)\<close>
  stores a newly generated name in the slot.
\<close>

function DestroyGLTextures_loop ::
  "(gl_call list \<Rightarrow> GLuint) \<Rightarrow> int \<Rightarrow> SceneManager \<times> gl_call list \<Rightarrow>
   fault + (SceneManager \<times> gl_call list)" where
  "DestroyGLTextures_loop drv i (s, gl) =
     (if i < m_loadedTextures s then
        (case slot_update (m_textureIDs s) i (\<lambda>t. t\<lparr>ID := drv gl\<rparr>) of
           Inl e \<Rightarrow> Inl e
         | Inr arr \<Rightarrow>
             DestroyGLTextures_loop drv (i + 1)
               (s\<lparr>m_textureIDs := arr\<rparr>, gl @ [GlGenTextures (drv gl)]))
      else Inr (s, gl))"
  by pat_completeness auto
termination
  by (relation "measure (\<lambda>(drv, i, s, gl). nat (m_loadedTextures s - i))") auto

declare DestroyGLTextures_loop.simps [simp del]

definition DestroyGLTextures ::
  "(gl_call list \<Rightarrow> GLuint) \<Rightarrow> SceneManager \<times> gl_call list \<Rightarrow>
   fault + (SceneManager \<times> gl_call list)" where
  "DestroyGLTextures drv sg = DestroyGLTextures_loop drv 0 sg"

section \<open>Materials\<close>

text \<open>
  \<open>FindMaterial\<close>: the result is the returned \<open>bool\<close> and the content of the reference
  parameter \<open>material\<close> after the call. The loop carries \<open>material\<close>, \<open>index\<close> and
  \<open>bFound\<close>; \<open>index\<close> starts at 0 and is compared with \<open>size()\<close>.
\<close>

function FindMaterial_loop ::
  "SceneManager \<Rightarrow> string \<Rightarrow> OBJECT_MATERIAL \<Rightarrow> nat \<Rightarrow> bool \<Rightarrow> OBJECT_MATERIAL" where
  "FindMaterial_loop s tg material index bFound =
     (if index < length (m_objectMaterials s) \<and> bFound = False then
        (if OBJECT_MATERIAL.tag (m_objectMaterials s ! index) = tg
         then FindMaterial_loop s tg
                (material\<lparr>diffuseColor := diffuseColor (m_objectMaterials s ! index),
                          specularColor := specularColor (m_objectMaterials s ! index),
                          shininess := shininess (m_objectMaterials s ! index)\<rparr>)
                index True
         else FindMaterial_loop s tg material (index + 1) bFound)
      else material)"
  by pat_completeness auto
termination
  by (relation "measure (\<lambda>(s, tg, material, index, bFound).
        (length (m_objectMaterials s) - index) + (if bFound then 0 else 1))") auto

declare FindMaterial_loop.simps [simp del]

definition FindMaterial ::
  "SceneManager \<Rightarrow> string \<Rightarrow> OBJECT_MATERIAL \<Rightarrow> bool \<times> OBJECT_MATERIAL" where
  "FindMaterial s tg material =
     (if length (m_objectMaterials s) = 0 then (False, material)
      else (True, FindMaterial_loop s tg material 0 False))"

section \<open>Staging shader values\<close>

text \<open>
  The GLM library is not part of the sources. The eight GLM operations that
  \<open>SetTransformations\<close> calls are its parameter: \<open>glm::scale\<close>, \<open>glm::rotate\<close>,
  \<open>glm::radians\<close>, \<open>glm::translate\<close>, the product of two \<open>mat4\<close>, the conversion
  \<open>glm::mat3(mat4)\<close>, \<open>glm::inverse\<close> and \<open>glm::transpose\<close> on \<open>mat3\<close>.
\<close>

record glm =
  glm_scale :: "vec3 \<Rightarrow> mat4"
  glm_rotate :: "float \<Rightarrow> vec3 \<Rightarrow> mat4"
  glm_radians :: "float \<Rightarrow> float"
  glm_translate :: "vec3 \<Rightarrow> mat4"
  glm_times :: "mat4 \<Rightarrow> mat4 \<Rightarrow> mat4"
  glm_mat3 :: "mat4 \<Rightarrow> mat3"
  glm_inverse :: "mat3 \<Rightarrow> mat3"
  glm_transpose :: "mat3 \<Rightarrow> mat3"

text \<open>The float literals \<open>0.0f\<close> and \<open>1.0f\<close>.\<close>

definition float_0 :: float where
  "float_0 = 0x00000000"

definition float_1 :: float where
  "float_1 = 0x3F800000"

text \<open>
  \<open>SetTransformations\<close>. The product \<open>translation * rotationZ * rotationY * rotationX *
  scale\<close> associates to the left, as \<open>*\<close> does in C++. The model matrix is written
  before the normal matrix, and only when the shader manager is not \<open>NULL\<close>.
\<close>

definition SetTransformations ::
  "glm \<Rightarrow> vec3 \<Rightarrow> float \<Rightarrow> float \<Rightarrow> float \<Rightarrow> vec3 \<Rightarrow> SceneManager \<Rightarrow> SceneManager" where
  "SetTransformations G scaleXYZ XrotationDegrees YrotationDegrees ZrotationDegrees
     positionXYZ s =
     (let scale = glm_scale G scaleXYZ;
          rotationX = glm_rotate G (glm_radians G XrotationDegrees)
                        (vec3 float_1 float_0 float_0);
          rotationY = glm_rotate G (glm_radians G YrotationDegrees)
                        (vec3 float_0 float_1 float_0);
          rotationZ = glm_rotate G (glm_radians G ZrotationDegrees)
                        (vec3 float_0 float_0 float_1);
          translation = glm_translate G positionXYZ;
          modelView =
            glm_times G
              (glm_times G (glm_times G (glm_times G translation rotationZ) rotationY)
                 rotationX)
              scale;
          normal = glm_transpose G (glm_inverse G (glm_mat3 G modelView))
      in case m_pShaderManager s of
           None \<Rightarrow> s
         | Some sh \<Rightarrow>
             s\<lparr>m_pShaderManager :=
                 Some (setMat3Value ''normal'' normal
                         (setMat4Value g_ModelName modelView sh))\<rparr>)"

text \<open>\<open>SetShaderColor\<close>: \<open>false\<close> is passed to \<open>setIntValue\<close>, that is, 0.\<close>

definition SetShaderColor ::
  "float \<Rightarrow> float \<Rightarrow> float \<Rightarrow> float \<Rightarrow> SceneManager \<Rightarrow> SceneManager" where
  "SetShaderColor redColorValue greenColorValue blueColorValue alphaValue s =
     (let currentColor = vec4 redColorValue greenColorValue blueColorValue alphaValue
      in case m_pShaderManager s of
           None \<Rightarrow> s
         | Some sh \<Rightarrow>
             s\<lparr>m_pShaderManager :=
                 Some (setVec4Value g_ColorValueName currentColor
                         (setIntValue g_UseTextureName 0 sh))\<rparr>)"

text \<open>
  \<open>SetShaderMaterial\<close>. The local \<open>OBJECT_MATERIAL material\<close> is declared without an
  initialiser; what it holds before \<open>FindMaterial\<close> is called is the parameter
  \<open>material0\<close>. The shader manager is used without a null check.
\<close>

definition SetShaderMaterial ::
  "OBJECT_MATERIAL \<Rightarrow> string \<Rightarrow> SceneManager \<Rightarrow> fault + SceneManager" where
  "SetShaderMaterial material0 materialTag s =
     (if length (m_objectMaterials s) > 0 then
        (case FindMaterial s materialTag material0 of
           (bReturn, material) \<Rightarrow>
             if bReturn = True then
               (case m_pShaderManager s of
                  None \<Rightarrow> Inl NullDereference
                | Some sh \<Rightarrow>
                    Inr (s\<lparr>m_pShaderManager :=
                          Some (setFloatValue ''material.shininess'' (shininess material)
                                 (setVec3Value ''material.specularColor'' (specularColor material)
                                   (setVec3Value ''material.diffuseColor'' (diffuseColor material)
                                      sh)))\<rparr>))
             else Inr s)
      else Inr s)"

text \<open>
  \<open>DefineObjectMaterials\<close>: seven materials are appended, in this order. The float
  literals are written as their bit patterns (\<open>0.8f\<close> is \<open>0x3F4CCCCD\<close>, and so on).
\<close>

definition marbleMaterial :: OBJECT_MATERIAL where
  "marbleMaterial =
     \<lparr> diffuseColor = vec3 0x3F4CCCCD 0x3F4CCCCD 0x3F4CCCCD,
       specularColor = vec3 0x3F666666 0x3F666666 0x3F666666,
       shininess = 0x42480000, OBJECT_MATERIAL.tag = ''marble'' \<rparr>"

definition paperMaterial :: OBJECT_MATERIAL where
  "paperMaterial =
     \<lparr> diffuseColor = vec3 0x3F666666 0x3F666666 0x3F4CCCCD,
       specularColor = vec3 0x3DCCCCCD 0x3DCCCCCD 0x3DCCCCCD,
       shininess = 0x41200000, OBJECT_MATERIAL.tag = ''paper'' \<rparr>"

definition fabricMaterial :: OBJECT_MATERIAL where
  "fabricMaterial =
     \<lparr> diffuseColor = vec3 0x3F19999A 0x3E4CCCCD 0x3ECCCCCD,
       specularColor = vec3 0x3E4CCCCD 0x3DCCCCCD 0x3DCCCCCD,
       shininess = 0x40A00000, OBJECT_MATERIAL.tag = ''fabric'' \<rparr>"

definition plasticMaterial :: OBJECT_MATERIAL where
  "plasticMaterial =
     \<lparr> diffuseColor = vec3 0x3F000000 0x3F000000 0x3F000000,
       specularColor = vec3 0x3E99999A 0x3E99999A 0x3E99999A,
       shininess = 0x41F00000, OBJECT_MATERIAL.tag = ''plastic'' \<rparr>"

definition ceramicMaterial :: OBJECT_MATERIAL where
  "ceramicMaterial =
     \<lparr> diffuseColor = vec3 0x3F666666 0x3F666666 0x3F666666,
       specularColor = vec3 0x3F4CCCCD 0x3F4CCCCD 0x3F4CCCCD,
       shininess = 0x42200000, OBJECT_MATERIAL.tag = ''ceramic'' \<rparr>"

definition screenMaterial :: OBJECT_MATERIAL where
  "screenMaterial =
     \<lparr> diffuseColor = vec3 0x3DCCCCCD 0x3DCCCCCD 0x3DCCCCCD,
       specularColor = vec3 0x3F666666 0x3F666666 0x3F666666,
       shininess = 0x42480000, OBJECT_MATERIAL.tag = ''screen'' \<rparr>"

definition woodMaterial :: OBJECT_MATERIAL where
  "woodMaterial =
     \<lparr> diffuseColor = vec3 0x3E99999A 0x3E4CCCCD 0x3DCCCCCD,
       specularColor = vec3 0x3DCCCCCD 0x3DCCCCCD 0x3DCCCCCD,
       shininess = 0x3E99999A, OBJECT_MATERIAL.tag = ''wood'' \<rparr>"

definition DefineObjectMaterials :: "SceneManager \<Rightarrow> SceneManager" where
  "DefineObjectMaterials s =
     s\<lparr>m_objectMaterials := m_objectMaterials s @
          [marbleMaterial, paperMaterial, fabricMaterial, plasticMaterial,
           ceramicMaterial, screenMaterial, woodMaterial]\<rparr>"

section \<open>Comparing floats and matrices\<close>

text \<open>
  The C++ comparison \<open>==\<close> on two floats, on their bit patterns: a NaN (exponent all ones,
  fraction not zero) is equal to nothing, the two zeros \<open>+0\<close> and \<open>-0\<close> are equal to each
  other, and otherwise the patterns must agree. Vectors and matrices are compared
  component by component.
\<close>

definition float_is_nan :: "float \<Rightarrow> bool" where
  "float_is_nan w \<longleftrightarrow> w AND 0x7F800000 = 0x7F800000 \<and> w AND 0x007FFFFF \<noteq> 0"

definition float_is_zero :: "float \<Rightarrow> bool" where
  "float_is_zero w \<longleftrightarrow> w AND 0x7FFFFFFF = 0"

definition float_eq :: "float \<Rightarrow> float \<Rightarrow> bool" where
  "float_eq u v \<longleftrightarrow>
     \<not> float_is_nan u \<and> \<not> float_is_nan v \<and> (u = v \<or> (float_is_zero u \<and> float_is_zero v))"

fun vec3_eq :: "vec3 \<Rightarrow> vec3 \<Rightarrow> bool" where
  "vec3_eq (vec3 u0 u1 u2) (vec3 v0 v1 v2) \<longleftrightarrow>
     float_eq u0 v0 \<and> float_eq u1 v1 \<and> float_eq u2 v2"

fun vec4_eq :: "vec4 \<Rightarrow> vec4 \<Rightarrow> bool" where
  "vec4_eq (vec4 u0 u1 u2 u3) (vec4 v0 v1 v2 v3) \<longleftrightarrow>
     float_eq u0 v0 \<and> float_eq u1 v1 \<and> float_eq u2 v2 \<and> float_eq u3 v3"

fun mat3_eq :: "mat3 \<Rightarrow> mat3 \<Rightarrow> bool" where
  "mat3_eq (mat3 u0 u1 u2) (mat3 v0 v1 v2) \<longleftrightarrow>
     vec3_eq u0 v0 \<and> vec3_eq u1 v1 \<and> vec3_eq u2 v2"

fun mat4_eq :: "mat4 \<Rightarrow> mat4 \<Rightarrow> bool" where
  "mat4_eq (mat4 u0 u1 u2 u3) (mat4 v0 v1 v2 v3) \<longleftrightarrow>
     vec4_eq u0 v0 \<and> vec4_eq u1 v1 \<and> vec4_eq u2 v2 \<and> vec4_eq u3 v3"

definition identity3 :: mat3 where
  "identity3 =
     mat3 (vec3 float_1 float_0 float_0)
          (vec3 float_0 float_1 float_0)
          (vec3 float_0 float_0 float_1)"

definition identity4 :: mat4 where
  "identity4 =
     mat4 (vec4 float_1 float_0 float_0 float_0)
          (vec4 float_0 float_1 float_0 float_0)
          (vec4 float_0 float_0 float_1 float_0)
          (vec4 float_0 float_0 float_0 float_1)"

text \<open>
  What the identity case needs from GLM, each fact up to \<open>==\<close>: zero degrees are zero
  radians; scaling by \<open>(1,1,1)\<close>, translating by \<open>(0,0,0)\<close> and rotating by a zero angle
  about a coordinate axis give the identity; the product of two identities is the
  identity; and the transposed inverse of the upper-left part of an identity is the
  identity.
\<close>

definition glm_identity_laws :: "glm \<Rightarrow> bool" where
  "glm_identity_laws G \<longleftrightarrow>
     float_eq (glm_radians G float_0) float_0 \<and>
     mat4_eq (glm_scale G (vec3 float_1 float_1 float_1)) identity4 \<and>
     mat4_eq (glm_translate G (vec3 float_0 float_0 float_0)) identity4 \<and>
     (\<forall>angle. float_eq angle float_0 \<longrightarrow>
        mat4_eq (glm_rotate G angle (vec3 float_1 float_0 float_0)) identity4 \<and>
        mat4_eq (glm_rotate G angle (vec3 float_0 float_1 float_0)) identity4 \<and>
        mat4_eq (glm_rotate G angle (vec3 float_0 float_0 float_1)) identity4) \<and>
     (\<forall>A B. mat4_eq A identity4 \<and> mat4_eq B identity4 \<longrightarrow>
        mat4_eq (glm_times G A B) identity4) \<and>
     (\<forall>A. mat4_eq A identity4 \<longrightarrow>
        mat3_eq (glm_transpose G (glm_inverse G (glm_mat3 G A))) identity3)"

section \<open>Concrete inputs\<close>

text \<open>
  Concrete inputs for the examples: three decoded images (RGB, RGBA, one grey channel), a
  decoder that returns a given image for every file, two drivers (one numbers the names
  from the calls seen so far, one hands out \<open>0xFFFFFFFF\<close>), the GPU calls of one
  successful RGB load, registries with one, two and sixteen loaded textures, a shader
  manager with the marble material staged, and a material full of left-over bits.
\<close>

definition rgb_image :: image where
  "rgb_image = \<lparr> width = 1, height = 1, colorChannels = 3, pixels = [255, 0, 0] \<rparr>"

definition rgba_image :: image where
  "rgba_image = \<lparr> width = 1, height = 1, colorChannels = 4, pixels = [255, 0, 0, 255] \<rparr>"

definition gray_image :: image where
  "gray_image = \<lparr> width = 1, height = 1, colorChannels = 1, pixels = [128] \<rparr>"

definition decode_as :: "image \<Rightarrow> string \<Rightarrow> image option" where
  "decode_as img filename = Some img"

definition driver_count :: "gl_call list \<Rightarrow> GLuint" where
  "driver_count gl = word_of_nat (length gl) + 1"

definition driver_max :: "gl_call list \<Rightarrow> GLuint" where
  "driver_max gl = 0xFFFFFFFF"

definition upload_calls :: "GLuint \<Rightarrow> gl_call list" where
  "upload_calls h =
     [GlGenTextures h, GlBindTexture h,
      GlTexParameteri GL_TEXTURE_WRAP_S GL_REPEAT,
      GlTexParameteri GL_TEXTURE_WRAP_T GL_REPEAT,
      GlTexParameteri GL_TEXTURE_MIN_FILTER GL_LINEAR,
      GlTexParameteri GL_TEXTURE_MAG_FILTER GL_LINEAR,
      GlTexImage2D GL_RGB8 1 1 GL_RGB [255, 0, 0],
      GlGenerateMipmap, GlBindTexture 0]"

definition desk_registry :: "GLuint \<Rightarrow> SceneManager" where
  "desk_registry h =
     (SceneManager_ctor None)
       \<lparr> m_textureIDs :=
           (m_textureIDs (SceneManager_ctor None))
             [0 := \<lparr> TEXTURE_INFO.tag = ''desk'', ID = h \<rparr>],
         m_loadedTextures := 1 \<rparr>"

definition full_registry :: SceneManager where
  "full_registry =
     (SceneManager_ctor None)
       \<lparr> m_textureIDs :=
           map (\<lambda>n. \<lparr> TEXTURE_INFO.tag = ''tex'', ID = word_of_nat n \<rparr>) [1..<17],
         m_loadedTextures := 16 \<rparr>"

definition two_textures :: SceneManager where
  "two_textures =
     (desk_registry 1)
       \<lparr> m_textureIDs := (m_textureIDs (desk_registry 1))
            [1 := \<lparr> TEXTURE_INFO.tag = ''wood'', ID = 11 \<rparr>],
         m_loadedTextures := 2 \<rparr>"

definition staged_marble :: ShaderManager where
  "staged_marble =
     setFloatValue ''material.shininess'' (shininess marbleMaterial)
       (setVec3Value ''material.specularColor'' (specularColor marbleMaterial)
         (setVec3Value ''material.diffuseColor'' (diffuseColor marbleMaterial)
           (setIntValue g_UseTextureName 1 Map.empty)))"

definition stale_material :: OBJECT_MATERIAL where
  "stale_material =
     \<lparr> diffuseColor = vec3 0xDEADBEEF 0xDEADBEEF 0xDEADBEEF,
       specularColor = vec3 0xDEADBEEF 0xDEADBEEF 0xDEADBEEF,
       shininess = 0xDEADBEEF, OBJECT_MATERIAL.tag = '''' \<rparr>"

text \<open>The value currently staged under a uniform name (nothing without a shader manager).\<close>

definition staged :: "SceneManager \<Rightarrow> string \<Rightarrow> uniform option" where
  "staged s name = (case m_pShaderManager s of None \<Rightarrow> None | Some sh \<Rightarrow> sh name)"

text \<open>
  A stand-in for GLM, used in the examples only. It moves components where GLM moves
  them (scale, translate, upper-left part, transpose); it does no arithmetic: its product
  keeps the left factor unless that is an identity, its rotation by an angle that is not
  zero records the axis and the angle, and its inverse of an identity has negative zeros
  off the diagonal, as a cofactor formula in floating point produces them.
\<close>

definition float_neg_0 :: float where
  "float_neg_0 = 0x80000000"

definition stand_in_glm :: glm where
  "stand_in_glm =
     \<lparr> glm_scale = (\<lambda>v. case v of vec3 v0 v1 v2 \<Rightarrow>
         mat4 (vec4 v0 float_0 float_0 float_0)
              (vec4 float_0 v1 float_0 float_0)
              (vec4 float_0 float_0 v2 float_0)
              (vec4 float_0 float_0 float_0 float_1)),
       glm_rotate = (\<lambda>angle axis. case axis of vec3 v0 v1 v2 \<Rightarrow>
         if float_eq angle float_0 then identity4
         else mat4 (vec4 v0 v1 v2 angle) (vec4 v0 v1 v2 angle) (vec4 v0 v1 v2 angle)
                (vec4 float_0 float_0 float_0 float_1)),
       glm_radians = (\<lambda>degrees. degrees),
       glm_translate = (\<lambda>v. case v of vec3 v0 v1 v2 \<Rightarrow>
         mat4 (vec4 float_1 float_0 float_0 float_0)
              (vec4 float_0 float_1 float_0 float_0)
              (vec4 float_0 float_0 float_1 float_0)
              (vec4 v0 v1 v2 float_1)),
       glm_times = (\<lambda>A B. if mat4_eq A identity4 then B else A),
       glm_mat3 = (\<lambda>A. case A of
         mat4 (vec4 a0 a1 a2 a3) (vec4 b0 b1 b2 b3) (vec4 c0 c1 c2 c3) d \<Rightarrow>
           mat3 (vec3 a0 a1 a2) (vec3 b0 b1 b2) (vec3 c0 c1 c2)),
       glm_inverse = (\<lambda>M. if mat3_eq M identity3
         then mat3 (vec3 float_1 float_neg_0 float_0)
                   (vec3 float_neg_0 float_1 float_neg_0)
                   (vec3 float_0 float_neg_0 float_1)
         else M),
       glm_transpose = (\<lambda>M. case M of
         mat3 (vec3 a0 a1 a2) (vec3 b0 b1 b2) (vec3 c0 c1 c2) \<Rightarrow>
           mat3 (vec3 a0 b0 c0) (vec3 a1 b1 c1) (vec3 a2 b2 c2)) \<rparr>"

section \<open>Material lookup: the out-parameter and the first match\<close>

lemmas material_defs = marbleMaterial_def paperMaterial_def fabricMaterial_def
  plasticMaterial_def ceramicMaterial_def screenMaterial_def woodMaterial_def

lemma FindMaterial_loop_found:
  "FindMaterial_loop s tg material index True = material"
  by (subst FindMaterial_loop.simps) simp

lemma FindMaterial_loop_no_match:
  "\<not> bFound \<Longrightarrow>
   (\<forall>j. index \<le> j \<and> j < length (m_objectMaterials s) \<longrightarrow>
        OBJECT_MATERIAL.tag (m_objectMaterials s ! j) \<noteq> tg) \<Longrightarrow>
   FindMaterial_loop s tg material index bFound = material"
proof (induction s tg material index bFound rule: FindMaterial_loop.induct)
  case (1 s tg material index bFound)
  show ?case
  proof (cases "index < length (m_objectMaterials s)")
    case True
    with "1.prems" have ne: "OBJECT_MATERIAL.tag (m_objectMaterials s ! index) \<noteq> tg"
      by simp
    have "FindMaterial_loop s tg material (index + 1) bFound = material"
      using "1.IH"(2) True ne "1.prems" by simp
    with True ne "1.prems"(1) show ?thesis
      by (subst FindMaterial_loop.simps) simp
  next
    case False
    then show ?thesis by (subst FindMaterial_loop.simps) simp
  qed
qed

lemma FindMaterial_loop_first_match:
  "\<not> bFound \<Longrightarrow> index \<le> k \<Longrightarrow> k < length (m_objectMaterials s) \<Longrightarrow>
   OBJECT_MATERIAL.tag (m_objectMaterials s ! k) = tg \<Longrightarrow>
   (\<forall>j. index \<le> j \<and> j < k \<longrightarrow> OBJECT_MATERIAL.tag (m_objectMaterials s ! j) \<noteq> tg) \<Longrightarrow>
   FindMaterial_loop s tg material index bFound =
     material\<lparr>diffuseColor := diffuseColor (m_objectMaterials s ! k),
              specularColor := specularColor (m_objectMaterials s ! k),
              shininess := shininess (m_objectMaterials s ! k)\<rparr>"
proof (induction s tg material index bFound rule: FindMaterial_loop.induct)
  case (1 s tg material index bFound)
  show ?case
  proof (cases "index = k")
    case True
    with "1.prems" show ?thesis
      by (subst FindMaterial_loop.simps) (simp add: FindMaterial_loop_found)
  next
    case False
    with "1.prems" have lt: "index < k" and ne: "OBJECT_MATERIAL.tag (m_objectMaterials s ! index) \<noteq> tg"
      by auto
    have "FindMaterial_loop s tg material (index + 1) bFound =
          material\<lparr>diffuseColor := diffuseColor (m_objectMaterials s ! k),
              specularColor := specularColor (m_objectMaterials s ! k),
              shininess := shininess (m_objectMaterials s ! k)\<rparr>"
      using "1.IH"(2) lt ne "1.prems" by simp
    with lt ne "1.prems" show ?thesis
      by (subst FindMaterial_loop.simps) simp
  qed
qed

lemma FindMaterial_unmatched:
  "\<forall>m \<in> set (m_objectMaterials s). OBJECT_MATERIAL.tag m \<noteq> tg \<Longrightarrow>
   FindMaterial s tg material = (m_objectMaterials s \<noteq> [], material)"
  using FindMaterial_loop_no_match [of False 0 s tg material]
  by (simp add: FindMaterial_def)

text \<open>
  C10. \<open>FindMaterial\<close> leaves its reference parameter exactly as it was when no registered
  material carries the tag; it nevertheless returns \<open>true\<close> as soon as the list is not
  empty, and \<open>false\<close> on the empty list.
\<close>

theorem FindMaterial_no_match_keeps_material:
  assumes "\<forall>m \<in> set (m_objectMaterials s). OBJECT_MATERIAL.tag m \<noteq> tg"
  shows "FindMaterial s tg material = (m_objectMaterials s \<noteq> [], material)"
proof (cases "m_objectMaterials s = []")
  case True
  then show ?thesis by (simp add: FindMaterial_def)
next
  case False
  from assms have "FindMaterial_loop s tg material 0 False = material"
    by (intro FindMaterial_loop_no_match) simp_all
  with False show ?thesis by (simp add: FindMaterial_def)
qed

theorem FindMaterial_no_match_keeps_material_witness:
  "list_all (\<lambda>m. OBJECT_MATERIAL.tag m \<noteq> ''glass'')
     (m_objectMaterials (DefineObjectMaterials (SceneManager_ctor None))) \<and>
   FindMaterial (DefineObjectMaterials (SceneManager_ctor None)) ''glass'' woodMaterial =
     (True, woodMaterial)"
  using FindMaterial_no_match_keeps_material
    [of "DefineObjectMaterials (SceneManager_ctor None)" "''glass''" woodMaterial]
  by (simp add: DefineObjectMaterials_def SceneManager_ctor_def material_defs)

text \<open>
  C7. When two materials are registered under the same tag, and none before the first of
  them carries it, \<open>FindMaterial\<close> copies the diffuse colour, specular colour and
  shininess of the first one; the later one is never reached.
\<close>

theorem FindMaterial_first_registered_wins:
  assumes "m_objectMaterials s = pre @ m1 # mid @ m2 # post"
    and "\<forall>m \<in> set pre. OBJECT_MATERIAL.tag m \<noteq> tg"
    and "OBJECT_MATERIAL.tag m1 = tg" and "OBJECT_MATERIAL.tag m2 = tg"
  shows "FindMaterial s tg material =
           (True, material\<lparr>diffuseColor := diffuseColor m1,
                           specularColor := specularColor m1,
                           shininess := shininess m1\<rparr>)"
proof -
  have "\<forall>j. 0 \<le> j \<and> j < length pre \<longrightarrow> OBJECT_MATERIAL.tag (m_objectMaterials s ! j) \<noteq> tg"
    using assms(1,2) by (simp add: nth_append)
  then show ?thesis
    using FindMaterial_loop_first_match [of False 0 "length pre" s tg material] assms
    by (simp add: FindMaterial_def)
qed

theorem FindMaterial_first_registered_wins_witness:
  "FindMaterial
     (SceneManager_ctor None
        \<lparr>m_objectMaterials :=
           [marbleMaterial, woodMaterial, paperMaterial,
            marbleMaterial\<lparr>OBJECT_MATERIAL.tag := ''wood''\<rparr>]\<rparr>)
     ''wood'' marbleMaterial =
   (True, marbleMaterial\<lparr>diffuseColor := vec3 0x3E99999A 0x3E4CCCCD 0x3DCCCCCD,
                         specularColor := vec3 0x3DCCCCCD 0x3DCCCCCD 0x3DCCCCCD,
                         shininess := 0x3E99999A\<rparr>)"
  using FindMaterial_first_registered_wins
    [of "SceneManager_ctor None
        \<lparr>m_objectMaterials :=
           [marbleMaterial, woodMaterial, paperMaterial,
            marbleMaterial\<lparr>OBJECT_MATERIAL.tag := ''wood''\<rparr>]\<rparr>"
        "[marbleMaterial]" woodMaterial "[paperMaterial]"
        "marbleMaterial\<lparr>OBJECT_MATERIAL.tag := ''wood''\<rparr>" "[]" "''wood''" marbleMaterial]
  by (simp add: SceneManager_ctor_def material_defs)

section \<open>Texture lookup: what the loops return\<close>

lemma slot_read_Inr:
  "slot_read arr i = Inr t \<longleftrightarrow> 0 \<le> i \<and> i < int (length arr) \<and> t = arr ! nat i"
  by (auto simp: slot_read_def)

lemma slot_read_Inl:
  "slot_read arr i = Inl e \<longleftrightarrow> \<not> (0 \<le> i \<and> i < int (length arr)) \<and> e = ArrayOverrun"
  by (auto simp: slot_read_def)

lemma FindTextureSlot_loop_found:
  "FindTextureSlot_loop s tg textureSlot index True = Inr textureSlot"
  by (subst FindTextureSlot_loop.simps) simp

lemma FindTextureID_loop_found:
  "FindTextureID_loop s tg textureID index True = Inr textureID"
  by (subst FindTextureID_loop.simps) simp

lemma FindTextureSlot_loop_step:
  "index < m_loadedTextures s \<Longrightarrow>
   FindTextureSlot_loop s tg textureSlot index False =
     (case slot_read (m_textureIDs s) index of
        Inl e \<Rightarrow> Inl e
      | Inr t \<Rightarrow> if TEXTURE_INFO.tag t = tg then Inr index
                 else FindTextureSlot_loop s tg textureSlot (index + 1) False)"
  by (subst FindTextureSlot_loop.simps)
     (simp add: FindTextureSlot_loop_found split: sum.splits)

lemma FindTextureSlot_loop_exit:
  "\<not> index < m_loadedTextures s \<Longrightarrow>
   FindTextureSlot_loop s tg textureSlot index False = Inr textureSlot"
  by (subst FindTextureSlot_loop.simps) simp

lemma FindTextureID_loop_step:
  "index < m_loadedTextures s \<Longrightarrow>
   FindTextureID_loop s tg textureID index False =
     (case slot_read (m_textureIDs s) index of
        Inl e \<Rightarrow> Inl e
      | Inr t \<Rightarrow> if TEXTURE_INFO.tag t = tg then Inr (sint (ID t))
                 else FindTextureID_loop s tg textureID (index + 1) False)"
  by (subst FindTextureID_loop.simps)
     (simp add: FindTextureID_loop_found split: sum.splits)

lemma FindTextureID_loop_exit:
  "\<not> index < m_loadedTextures s \<Longrightarrow>
   FindTextureID_loop s tg textureID index False = Inr textureID"
  by (subst FindTextureID_loop.simps) simp

text \<open>What the slot loop returns, started at \<open>index\<close> with the flag down.\<close>

lemma FindTextureSlot_loop_result:
  "\<not> bFound \<Longrightarrow> 0 \<le> index \<Longrightarrow>
   FindTextureSlot_loop s tg textureSlot index bFound = Inr k \<Longrightarrow>
   k = textureSlot \<or>
   (index \<le> k \<and> k < m_loadedTextures s \<and> k < int (length (m_textureIDs s)) \<and>
    TEXTURE_INFO.tag (m_textureIDs s ! nat k) = tg \<and>
    (\<forall>j. index \<le> j \<and> j < k \<longrightarrow> TEXTURE_INFO.tag (m_textureIDs s ! nat j) \<noteq> tg))"
proof (induction s tg textureSlot index bFound rule: FindTextureSlot_loop.induct)
  case (1 s tg textureSlot index bFound)
  from "1.prems"(1) have b: "bFound = False" by simp
  show ?case
  proof (cases "index < m_loadedTextures s")
    case False
    with "1.prems" b show ?thesis by (simp add: FindTextureSlot_loop_exit)
  next
    case True
    note run = "1.prems"(3) [unfolded b FindTextureSlot_loop_step [OF True]]
    show ?thesis
    proof (cases "slot_read (m_textureIDs s) index")
      case (Inl e)
      with run show ?thesis by simp
    next
      case (Inr t)
      then have t: "index < int (length (m_textureIDs s))" "t = m_textureIDs s ! nat index"
        by (simp_all add: slot_read_Inr)
      show ?thesis
      proof (cases "TEXTURE_INFO.tag t = tg")
        case True
        with run Inr have k: "k = index" by simp
        have "\<forall>j. index \<le> j \<and> j < k \<longrightarrow> TEXTURE_INFO.tag (m_textureIDs s ! nat j) \<noteq> tg"
        proof (intro allI impI)
          fix j assume "index \<le> j \<and> j < k"
          with k have False by linarith
          then show "TEXTURE_INFO.tag (m_textureIDs s ! nat j) \<noteq> tg" ..
        qed
        with True t \<open>index < m_loadedTextures s\<close> k show ?thesis by simp
      next
        case nomatch: False
        with run Inr b
        have "FindTextureSlot_loop s tg textureSlot (index + 1) bFound = Inr k" by simp
        from "1.IH"(2) [OF _ Inr nomatch _ _ this] True b "1.prems"(2)
        consider (nf) "k = textureSlot"
          | (f) "index + 1 \<le> k" "k < m_loadedTextures s" "k < int (length (m_textureIDs s))"
              "TEXTURE_INFO.tag (m_textureIDs s ! nat k) = tg"
              "\<forall>j. index + 1 \<le> j \<and> j < k \<longrightarrow>
                  TEXTURE_INFO.tag (m_textureIDs s ! nat j) \<noteq> tg"
          by fastforce
        then show ?thesis
        proof cases
          case nf
          then show ?thesis by simp
        next
          case f
          have "TEXTURE_INFO.tag (m_textureIDs s ! nat j) \<noteq> tg"
            if "index \<le> j \<and> j < k" for j
          proof (cases "j = index")
            case True
            with nomatch t(2) show ?thesis by simp
          next
            case False
            with that have "index + 1 \<le> j \<and> j < k" by simp
            with f(5) show ?thesis by blast
          qed
          moreover from f(1) have "index \<le> k" by simp
          ultimately show ?thesis using f(2,3,4) by blast
        qed
      qed
    qed
  qed
qed

text \<open>The two loops walk the table in step.\<close>

lemma FindTextureID_loop_follows_slot:
  "\<not> bFound \<Longrightarrow> textureSlot < index \<Longrightarrow>
   FindTextureID_loop s tg textureID index bFound =
     (case FindTextureSlot_loop s tg textureSlot index bFound of
        Inl e \<Rightarrow> Inl e
      | Inr k \<Rightarrow> if k = textureSlot then Inr textureID
                 else Inr (sint (ID (m_textureIDs s ! nat k))))"
proof (induction s tg textureSlot index bFound rule: FindTextureSlot_loop.induct)
  case (1 s tg textureSlot index bFound)
  from "1.prems"(1) have b: "bFound = False" by simp
  show ?case
  proof (cases "index < m_loadedTextures s")
    case False
    with b show ?thesis
      by (simp add: FindTextureSlot_loop_exit FindTextureID_loop_exit)
  next
    case True
    show ?thesis
    proof (cases "slot_read (m_textureIDs s) index")
      case (Inl e)
      with True b show ?thesis
        by (simp add: FindTextureSlot_loop_step FindTextureID_loop_step)
    next
      case (Inr t)
      then have t: "t = m_textureIDs s ! nat index"
        by (simp add: slot_read_Inr)
      show ?thesis
      proof (cases "TEXTURE_INFO.tag t = tg")
        case match: True
        with True b Inr t "1.prems"(2) show ?thesis
          by (simp add: FindTextureSlot_loop_step FindTextureID_loop_step)
      next
        case False
        from "1.IH"(2) [OF _ Inr False] True b "1.prems"(2)
        have "FindTextureID_loop s tg textureID (index + 1) bFound =
              (case FindTextureSlot_loop s tg textureSlot (index + 1) bFound of
                 Inl e \<Rightarrow> Inl e
               | Inr k \<Rightarrow> if k = textureSlot then Inr textureID
                          else Inr (sint (ID (m_textureIDs s ! nat k))))"
          by simp
        with True b Inr False show ?thesis
          by (simp add: FindTextureSlot_loop_step FindTextureID_loop_step)
      qed
    qed
  qed
qed

lemma FindTextureSlot_loop_finds:
  "\<not> bFound \<Longrightarrow> 0 \<le> index \<Longrightarrow> index \<le> j \<Longrightarrow> j < m_loadedTextures s \<Longrightarrow>
   m_loadedTextures s \<le> int (length (m_textureIDs s)) \<Longrightarrow>
   TEXTURE_INFO.tag (m_textureIDs s ! nat j) = tg \<Longrightarrow>
   \<exists>k. FindTextureSlot_loop s tg textureSlot index bFound = Inr k \<and> index \<le> k \<and> k \<le> j"
proof (induction s tg textureSlot index bFound rule: FindTextureSlot_loop.induct)
  case (1 s tg textureSlot index bFound)
  from "1.prems"(1) have b: "bFound = False" by simp
  from "1.prems" have lt: "index < m_loadedTextures s" by simp
  with "1.prems" have rd: "slot_read (m_textureIDs s) index = Inr (m_textureIDs s ! nat index)"
    by (simp add: slot_read_def)
  show ?case
  proof (cases "TEXTURE_INFO.tag (m_textureIDs s ! nat index) = tg")
    case True
    with lt rd b "1.prems"(3) show ?thesis
      by (simp add: FindTextureSlot_loop_step)
  next
    case False
    with "1.prems"(3,6) have "index \<noteq> j" by auto
    with "1.prems"(3) have "index + 1 \<le> j" by simp
    from "1.IH"(2) [OF _ rd False "1.prems"(1) _ this "1.prems"(4,5,6)] lt b "1.prems"(2)
    obtain k where "FindTextureSlot_loop s tg textureSlot (index + 1) bFound = Inr k"
      "index + 1 \<le> k" "k \<le> j" by auto
    with lt rd b False show ?thesis
      by (simp add: FindTextureSlot_loop_step)
  qed
qed

lemma FindTextureSlot_loop_tags_only:
  "m_loadedTextures s' = m_loadedTextures s \<Longrightarrow>
   map TEXTURE_INFO.tag (m_textureIDs s') = map TEXTURE_INFO.tag (m_textureIDs s) \<Longrightarrow>
   FindTextureSlot_loop s' tg textureSlot index bFound =
   FindTextureSlot_loop s tg textureSlot index bFound"
proof (induction s tg textureSlot index bFound rule: FindTextureSlot_loop.induct)
  case (1 s tg textureSlot index bFound)
  have len: "length (m_textureIDs s') = length (m_textureIDs s)"
    using "1.prems"(2) by (rule map_eq_imp_length_eq)
  show ?case
  proof (cases bFound)
    case True
    then show ?thesis by (simp add: FindTextureSlot_loop_found)
  next
    case b: False
    show ?thesis
    proof (cases "index < m_loadedTextures s")
      case False
      with b "1.prems"(1) show ?thesis by (simp add: FindTextureSlot_loop_exit)
    next
      case True
      show ?thesis
      proof (cases "0 \<le> index \<and> index < int (length (m_textureIDs s))")
        case False
        then have "slot_read (m_textureIDs s) index = Inl ArrayOverrun"
          by (simp add: slot_read_Inl)
        moreover from False len have "slot_read (m_textureIDs s') index = Inl ArrayOverrun"
          by (simp add: slot_read_Inl)
        ultimately show ?thesis using True b "1.prems"(1)
          by (simp add: FindTextureSlot_loop_step)
      next
        case inb: True
        then have rd: "slot_read (m_textureIDs s) index = Inr (m_textureIDs s ! nat index)"
          by (simp add: slot_read_def)
        from inb len have rd': "slot_read (m_textureIDs s') index = Inr (m_textureIDs s' ! nat index)"
          by (simp add: slot_read_def)
        from inb have n: "nat index < length (m_textureIDs s)" by linarith
        have "map TEXTURE_INFO.tag (m_textureIDs s') ! nat index =
              map TEXTURE_INFO.tag (m_textureIDs s) ! nat index"
          using "1.prems"(2) by simp
        moreover have "map TEXTURE_INFO.tag (m_textureIDs s') ! nat index =
              TEXTURE_INFO.tag (m_textureIDs s' ! nat index)"
          using n len by (intro nth_map) simp
        moreover have "map TEXTURE_INFO.tag (m_textureIDs s) ! nat index =
              TEXTURE_INFO.tag (m_textureIDs s ! nat index)"
          using n by (intro nth_map)
        ultimately have tags: "TEXTURE_INFO.tag (m_textureIDs s' ! nat index) =
                         TEXTURE_INFO.tag (m_textureIDs s ! nat index)"
          by simp
        show ?thesis
        proof (cases "TEXTURE_INFO.tag (m_textureIDs s ! nat index) = tg")
          case True
          with \<open>index < m_loadedTextures s\<close> b rd rd' tags "1.prems"(1) show ?thesis
            by (simp add: FindTextureSlot_loop_step)
        next
          case False
          from "1.IH"(2) [OF _ rd False "1.prems"] \<open>index < m_loadedTextures s\<close> b
          have "FindTextureSlot_loop s' tg textureSlot (index + 1) bFound =
                FindTextureSlot_loop s tg textureSlot (index + 1) bFound" by simp
          with \<open>index < m_loadedTextures s\<close> b rd rd' tags False "1.prems"(1) show ?thesis
            by (simp add: FindTextureSlot_loop_step)
        qed
      qed
    qed
  qed
qed

lemma slot_update_ID_tags:
  "slot_update arr i (\<lambda>t. t\<lparr>ID := h\<rparr>) = Inr arr' \<Longrightarrow>
   map TEXTURE_INFO.tag arr' = map TEXTURE_INFO.tag arr"
proof -
  assume "slot_update arr i (\<lambda>t. t\<lparr>ID := h\<rparr>) = Inr arr'"
  then have n: "nat i < length arr" and arr': "arr' = arr[nat i := (arr ! nat i)\<lparr>ID := h\<rparr>]"
    by (auto simp: slot_update_def split: if_splits)
  have "map TEXTURE_INFO.tag arr' =
        (map TEXTURE_INFO.tag arr)[nat i := map TEXTURE_INFO.tag arr ! nat i]"
    using n by (simp add: arr' map_update)
  then show ?thesis by simp
qed

lemma DestroyGLTextures_loop_frame:
  "DestroyGLTextures_loop drv i (s, gl) = Inr (s', gl') \<Longrightarrow>
   m_loadedTextures s' = m_loadedTextures s \<and>
   map TEXTURE_INFO.tag (m_textureIDs s') = map TEXTURE_INFO.tag (m_textureIDs s) \<and>
   list_all (\<lambda>c. c \<in> set gl \<or> (case c of GlGenTextures h \<Rightarrow> True | _ \<Rightarrow> False)) gl'"
proof (induction drv i "(s, gl)" arbitrary: s gl rule: DestroyGLTextures_loop.induct)
  case (1 drv i s gl)
  show ?case
  proof (cases "i < m_loadedTextures s")
    case False
    with "1.prems" show ?thesis
      by (subst (asm) DestroyGLTextures_loop.simps) (auto simp: list_all_iff)
  next
    case True
    show ?thesis
    proof (cases "slot_update (m_textureIDs s) i (\<lambda>t. t\<lparr>ID := drv gl\<rparr>)")
      case (Inl e)
      with True "1.prems" show ?thesis
        by (subst (asm) DestroyGLTextures_loop.simps) simp
    next
      case (Inr arr)
      with True "1.prems"
      have run: "DestroyGLTextures_loop drv (i + 1)
                   (s\<lparr>m_textureIDs := arr\<rparr>, gl @ [GlGenTextures (drv gl)]) = Inr (s', gl')"
        by (subst (asm) DestroyGLTextures_loop.simps) simp
      from "1.hyps" [OF True Inr run] slot_update_ID_tags [OF Inr]
      show ?thesis by (auto simp: list_all_iff)
    qed
  qed
qed

lemmas fixture_defs = rgb_image_def rgba_image_def gray_image_def decode_as_def
  driver_count_def driver_max_def upload_calls_def desk_registry_def full_registry_def
  SceneManager_ctor_def

lemma sint_minus_one_iff: "sint (w :: 32 word) = - 1 \<longleftrightarrow> w = - 1"
  using word_eq_iff_signed [of w "- 1", where ?'a = int] by simp

section \<open>Loading\<close>

lemma TEXTURE_INFO_overwrite:
  "t\<lparr>ID := h, TEXTURE_INFO.tag := tg\<rparr> = \<lparr>TEXTURE_INFO.tag = tg, ID = h\<rparr>"
  by (cases t) simp

lemma register_texture_ok:
  "0 \<le> m_loadedTextures s \<Longrightarrow> m_loadedTextures s < int (length (m_textureIDs s)) \<Longrightarrow>
   register_texture h tg s =
     Inr (s\<lparr>m_textureIDs :=
              (m_textureIDs s)[nat (m_loadedTextures s) := \<lparr>TEXTURE_INFO.tag = tg, ID = h\<rparr>],
            m_loadedTextures := m_loadedTextures s + 1\<rparr>)"
  by (simp add: register_texture_def slot_update_def TEXTURE_INFO_overwrite)

lemma register_texture_overrun:
  "int (length (m_textureIDs s)) \<le> m_loadedTextures s \<Longrightarrow>
   register_texture h tg s = Inl ArrayOverrun"
  by (simp add: register_texture_def slot_update_def)

lemma CreateGLTexture_loaded:
  assumes "stbi_load filename = Some img"
    and "colorChannels img = 3 \<or> colorChannels img = 4"
  shows "\<exists>gl'. CreateGLTexture stbi_load drv filename tg (s, gl) =
           (case register_texture (drv gl) tg s of
              Inl e \<Rightarrow> Inl e
            | Inr s' \<Rightarrow> Inr (True, s', gl'))"
  using assms by (auto simp: CreateGLTexture_def Let_def split: sum.splits)

lemma desk_registry_reached:
  "CreateGLTexture (decode_as rgb_image) drv ''textures/topdesk.jpg'' ''desk''
     (SceneManager_ctor None, []) = Inr (True, desk_registry (drv []), upload_calls (drv []))"
  by (simp add: CreateGLTexture_def register_texture_def slot_update_def Let_def fixture_defs)

text \<open>
  C5. When the decoded image has a channel count other than 3 or 4, \<open>CreateGLTexture\<close>
  returns \<open>false\<close> and the object is exactly as before: the slots and the count of loaded
  textures are untouched. (The texture name generated for the image stays on the GPU.)
\<close>

theorem CreateGLTexture_rejects_other_channel_counts:
  assumes "stbi_load filename = Some img"
    and "colorChannels img \<noteq> 3" and "colorChannels img \<noteq> 4"
  shows "CreateGLTexture stbi_load drv filename tg (s, gl) =
           Inr (False, s,
                gl @ [GlGenTextures (drv gl), GlBindTexture (drv gl),
                      GlTexParameteri GL_TEXTURE_WRAP_S GL_REPEAT,
                      GlTexParameteri GL_TEXTURE_WRAP_T GL_REPEAT,
                      GlTexParameteri GL_TEXTURE_MIN_FILTER GL_LINEAR,
                      GlTexParameteri GL_TEXTURE_MAG_FILTER GL_LINEAR])"
  using assms by (simp add: CreateGLTexture_def Let_def)

theorem CreateGLTexture_rejects_other_channel_counts_witness:
  "CreateGLTexture (decode_as gray_image) driver_count ''textures/gray.png'' ''gray''
     (desk_registry 1, upload_calls 1) =
   Inr (False, desk_registry 1,
        upload_calls 1 @ [GlGenTextures 10, GlBindTexture 10,
                      GlTexParameteri GL_TEXTURE_WRAP_S GL_REPEAT,
                      GlTexParameteri GL_TEXTURE_WRAP_T GL_REPEAT,
                      GlTexParameteri GL_TEXTURE_MIN_FILTER GL_LINEAR,
                      GlTexParameteri GL_TEXTURE_MAG_FILTER GL_LINEAR])"
  using CreateGLTexture_rejects_other_channel_counts
    [of "decode_as gray_image" "''textures/gray.png''" gray_image driver_count "''gray''"
        "desk_registry 1" "upload_calls 1"]
  by (simp add: gray_image_def decode_as_def driver_count_def upload_calls_def)

text \<open>
  C4, as amended. When fewer than 16 textures are loaded and the decoded image has 3 or 4
  channels, \<open>CreateGLTexture\<close> returns \<open>true\<close>, the count goes up by one, and
  \<open>FindTextureSlot\<close> on the tag then returns an index between 0 and 15.
\<close>

theorem CreateGLTexture_then_FindTextureSlot:
  assumes "stbi_load filename = Some img"
    and "colorChannels img = 3 \<or> colorChannels img = 4"
    and "length (m_textureIDs s) = 16"
    and "0 \<le> m_loadedTextures s" and "m_loadedTextures s < 16"
  shows "\<exists>s' gl' k. CreateGLTexture stbi_load drv filename tg (s, gl) = Inr (True, s', gl') \<and>
           m_loadedTextures s' = m_loadedTextures s + 1 \<and>
           FindTextureSlot s' tg = Inr k \<and> 0 \<le> k \<and> k \<le> 15"
proof -
  let ?n = "m_loadedTextures s"
  let ?s' = "s\<lparr>m_textureIDs :=
              (m_textureIDs s)[nat ?n := \<lparr>TEXTURE_INFO.tag = tg, ID = drv gl\<rparr>],
            m_loadedTextures := ?n + 1\<rparr>"
  from assms(3-5) have "register_texture (drv gl) tg s = Inr ?s'"
    by (simp add: register_texture_ok)
  with CreateGLTexture_loaded [of stbi_load filename img drv tg s gl, OF assms(1,2)]
  obtain gl' where run: "CreateGLTexture stbi_load drv filename tg (s, gl) = Inr (True, ?s', gl')"
    by auto
  from assms(3-5) have "TEXTURE_INFO.tag (m_textureIDs ?s' ! nat ?n) = tg"
    by simp
  with assms(3-5)
  have "\<exists>k. FindTextureSlot_loop ?s' tg (- 1) 0 False = Inr k \<and> 0 \<le> k \<and> k \<le> ?n"
    by (intro FindTextureSlot_loop_finds) simp_all
  then obtain k where "FindTextureSlot ?s' tg = Inr k" "0 \<le> k" "k \<le> ?n"
    by (auto simp: FindTextureSlot_def)
  with run assms(5) show ?thesis by auto
qed

theorem CreateGLTexture_then_FindTextureSlot_witness:
  "\<exists>s' gl' k. CreateGLTexture (decode_as rgba_image) driver_count ''textures/wood.jpg'' ''wood''
       (desk_registry 1, upload_calls 1) = Inr (True, s', gl') \<and>
     m_loadedTextures s' = 2 \<and> FindTextureSlot s' ''wood'' = Inr k \<and> 0 \<le> k \<and> k \<le> 15"
  using CreateGLTexture_then_FindTextureSlot
    [of "decode_as rgba_image" "''textures/wood.jpg''" rgba_image "desk_registry 1"
        driver_count "''wood''" "upload_calls 1"]
  by (simp add: rgba_image_def decode_as_def desk_registry_def SceneManager_ctor_def)

theorem CreateGLTexture_full_registry_counterexample:
  "CreateGLTexture (decode_as rgb_image) driver_count ''textures/extra.jpg'' ''extra''
     (full_registry, []) = Inl ArrayOverrun"
  by (simp add: CreateGLTexture_def register_texture_def slot_update_def Let_def fixture_defs)

text \<open>
  C1. With all 16 slots occupied, \<open>CreateGLTexture\<close> on an image of 3 or 4 channels does
  not return \<open>false\<close>: it has no capacity check and writes \<open>m_textureIDs[16]\<close>, outside
  the array.
\<close>

theorem CreateGLTexture_seventeenth_load_overruns:
  assumes "stbi_load filename = Some img"
    and "colorChannels img = 3 \<or> colorChannels img = 4"
    and "length (m_textureIDs s) = 16" and "m_loadedTextures s = 16"
  shows "CreateGLTexture stbi_load drv filename tg (s, gl) = Inl ArrayOverrun"
proof -
  from assms(3,4) have "register_texture (drv gl) tg s = Inl ArrayOverrun"
    by (simp add: register_texture_overrun)
  with CreateGLTexture_loaded [of stbi_load filename img drv tg s gl, OF assms(1,2)] show ?thesis
    by auto
qed

theorem CreateGLTexture_seventeenth_load_overruns_witness:
  "length (m_textureIDs full_registry) = 16 \<and> m_loadedTextures full_registry = 16 \<and>
   CreateGLTexture (decode_as rgba_image) driver_count ''textures/seventeenth.png'' ''tex17''
     (full_registry, []) = Inl ArrayOverrun"
  using CreateGLTexture_seventeenth_load_overruns
    [of "decode_as rgba_image" "''textures/seventeenth.png''" rgba_image full_registry
        driver_count "''tex17''" "[]"]
  by (simp add: rgba_image_def decode_as_def full_registry_def SceneManager_ctor_def)

lemmas setter_defs = setIntValue_def setFloatValue_def setVec3Value_def setVec4Value_def
  g_ColorValueName_def g_UseTextureName_def

section \<open>The two texture lookups\<close>

lemma FindTextureID_by_slot:
  "FindTextureID s tg =
     (case FindTextureSlot s tg of
        Inl e \<Rightarrow> Inl e
      | Inr k \<Rightarrow> if k = - 1 then Inr (- 1)
                 else Inr (sint (ID (m_textureIDs s ! nat k))))"
  unfolding FindTextureID_def FindTextureSlot_def
  by (rule FindTextureID_loop_follows_slot) simp_all

lemma FindTextureSlot_result:
  "FindTextureSlot s tg = Inr k \<Longrightarrow>
   k = - 1 \<or>
   (0 \<le> k \<and> k < m_loadedTextures s \<and> k < int (length (m_textureIDs s)) \<and>
    TEXTURE_INFO.tag (m_textureIDs s ! nat k) = tg \<and>
    (\<forall>j. 0 \<le> j \<and> j < k \<longrightarrow> TEXTURE_INFO.tag (m_textureIDs s ! nat j) \<noteq> tg))"
  unfolding FindTextureSlot_def
  by (rule FindTextureSlot_loop_result [of False 0 s tg "- 1" k]) simp_all

text \<open>
  C9, as amended. Both lookups fault together; \<open>FindTextureSlot\<close> returning \<open>-1\<close> makes
  \<open>FindTextureID\<close> return \<open>-1\<close>; and when \<open>FindTextureSlot\<close> returns an index \<open>k\<close>, it is
  the first loaded slot carrying the tag and \<open>FindTextureID\<close> returns the handle stored
  there, read as an \<open>int\<close>. \<open>FindTextureID\<close> then returns \<open>-1\<close> exactly when that handle is
  \<open>0xFFFFFFFF\<close>.
\<close>

theorem FindTextureID_agrees_with_FindTextureSlot:
  "(FindTextureSlot s tg = Inl e \<longleftrightarrow> FindTextureID s tg = Inl e) \<and>
   (FindTextureSlot s tg = Inr (- 1) \<longrightarrow> FindTextureID s tg = Inr (- 1)) \<and>
   (FindTextureSlot s tg = Inr k \<and> k \<noteq> - 1 \<longrightarrow>
      0 \<le> k \<and> k < m_loadedTextures s \<and>
      TEXTURE_INFO.tag (m_textureIDs s ! nat k) = tg \<and>
      (\<forall>j. 0 \<le> j \<and> j < k \<longrightarrow> TEXTURE_INFO.tag (m_textureIDs s ! nat j) \<noteq> tg) \<and>
      FindTextureID s tg = Inr (sint (ID (m_textureIDs s ! nat k))) \<and>
      (FindTextureID s tg = Inr (- 1) \<longleftrightarrow> ID (m_textureIDs s ! nat k) = - 1))"
proof (intro conjI impI)
  show "FindTextureSlot s tg = Inl e \<longleftrightarrow> FindTextureID s tg = Inl e"
    by (simp add: FindTextureID_by_slot split: sum.splits)
next
  assume "FindTextureSlot s tg = Inr (- 1)"
  then show "FindTextureID s tg = Inr (- 1)"
    by (simp add: FindTextureID_by_slot)
next
  assume a: "FindTextureSlot s tg = Inr k \<and> k \<noteq> - 1"
  with FindTextureSlot_result [of s tg k]
  have r: "0 \<le> k" "k < m_loadedTextures s"
    "TEXTURE_INFO.tag (m_textureIDs s ! nat k) = tg"
    "\<forall>j. 0 \<le> j \<and> j < k \<longrightarrow> TEXTURE_INFO.tag (m_textureIDs s ! nat j) \<noteq> tg"
    by blast+
  from a have id: "FindTextureID s tg = Inr (sint (ID (m_textureIDs s ! nat k)))"
    by (simp add: FindTextureID_by_slot)
  show "0 \<le> k" by (fact r(1))
  show "k < m_loadedTextures s" by (fact r(2))
  show "TEXTURE_INFO.tag (m_textureIDs s ! nat k) = tg" by (fact r(3))
  show "\<forall>j. 0 \<le> j \<and> j < k \<longrightarrow> TEXTURE_INFO.tag (m_textureIDs s ! nat j) \<noteq> tg"
    by (fact r(4))
  show "FindTextureID s tg = Inr (sint (ID (m_textureIDs s ! nat k)))" by (fact id)
  show "FindTextureID s tg = Inr (- 1) \<longleftrightarrow> ID (m_textureIDs s ! nat k) = - 1"
    by (simp add: id sint_minus_one_iff)
qed

lemma FindTextureSlot_two_textures: "FindTextureSlot two_textures ''wood'' = Inr 1"
  by (simp add: FindTextureSlot_def FindTextureSlot_loop_step FindTextureSlot_loop_exit
      slot_read_def two_textures_def desk_registry_def SceneManager_ctor_def)

theorem FindTextureID_agrees_with_FindTextureSlot_witness:
  "FindTextureSlot two_textures ''wood'' = Inr 1 \<and>
   FindTextureID two_textures ''wood'' = Inr 11"
  using FindTextureID_agrees_with_FindTextureSlot [of two_textures "''wood''" ArrayOverrun 1]
    FindTextureSlot_two_textures
  by (simp add: two_textures_def desk_registry_def SceneManager_ctor_def)

theorem FindTextureID_sentinel_collision:
  "FindTextureSlot (desk_registry 0xFFFFFFFF) ''desk'' = Inr 0 \<and>
   FindTextureID (desk_registry 0xFFFFFFFF) ''desk'' = Inr (- 1) \<and>
   \<not> (FindTextureID (desk_registry 0xFFFFFFFF) ''desk'' = Inr (- 1) \<longleftrightarrow>
      FindTextureSlot (desk_registry 0xFFFFFFFF) ''desk'' = Inr (- 1))"
  by (simp add: FindTextureSlot_def FindTextureSlot_loop_step FindTextureSlot_loop_exit
      FindTextureID_def FindTextureID_loop_step FindTextureID_loop_exit
      slot_read_def desk_registry_def SceneManager_ctor_def)

text \<open>That registry is what one load leaves behind when the driver hands out that name.\<close>

lemma sentinel_collision_reached:
  "CreateGLTexture (decode_as rgb_image) driver_max ''textures/topdesk.jpg'' ''desk''
     (SceneManager_ctor None, []) =
   Inr (True, desk_registry 0xFFFFFFFF, upload_calls 0xFFFFFFFF)"
  using desk_registry_reached [of driver_max] by (simp add: driver_max_def)

section \<open>Destroying textures\<close>

text \<open>
  C2. \<open>DestroyGLTextures\<close> does not empty the registry: the count of loaded textures and
  every tag stay as they were, so \<open>FindTextureSlot\<close> answers as before, and the only GPU
  calls it makes are \<open>glGenTextures\<close>; no texture name is deleted.
\<close>

theorem DestroyGLTextures_keeps_registry:
  assumes "DestroyGLTextures drv (s, gl) = Inr (s', gl')"
  shows "m_loadedTextures s' = m_loadedTextures s \<and>
         FindTextureSlot s' tg = FindTextureSlot s tg \<and>
         (GlDeleteTextures h \<in> set gl' \<longrightarrow> GlDeleteTextures h \<in> set gl)"
proof -
  from assms have fr: "m_loadedTextures s' = m_loadedTextures s"
    "map TEXTURE_INFO.tag (m_textureIDs s') = map TEXTURE_INFO.tag (m_textureIDs s)"
    "list_all (\<lambda>c. c \<in> set gl \<or> (case c of GlGenTextures h \<Rightarrow> True | _ \<Rightarrow> False)) gl'"
    unfolding DestroyGLTextures_def by (auto dest: DestroyGLTextures_loop_frame)
  from fr(1,2) have "FindTextureSlot s' tg = FindTextureSlot s tg"
    unfolding FindTextureSlot_def by (rule FindTextureSlot_loop_tags_only)
  moreover from fr(3) have "GlDeleteTextures h \<in> set gl' \<longrightarrow> GlDeleteTextures h \<in> set gl"
    by (auto simp: list_all_iff)
  ultimately show ?thesis using fr(1) by simp
qed

lemma DestroyGLTextures_desk_registry:
  "DestroyGLTextures driver_count (desk_registry 1, upload_calls 1) =
     Inr (desk_registry 10, upload_calls 1 @ [GlGenTextures 10])"
  by (simp add: DestroyGLTextures_def DestroyGLTextures_loop.simps slot_update_def
      driver_count_def upload_calls_def desk_registry_def SceneManager_ctor_def)

theorem DestroyGLTextures_keeps_registry_witness:
  "DestroyGLTextures driver_count (desk_registry 1, upload_calls 1) =
     Inr (desk_registry 10, upload_calls 1 @ [GlGenTextures 10]) \<and>
   m_loadedTextures (desk_registry 10) = 1 \<and>
   FindTextureSlot (desk_registry 10) ''desk'' = Inr 0 \<and>
   GlDeleteTextures 1 \<notin> set (upload_calls 1 @ [GlGenTextures 10])"
  using DestroyGLTextures_keeps_registry
    [of driver_count "desk_registry 1" "upload_calls 1" "desk_registry 10"
        "upload_calls 1 @ [GlGenTextures 10]" "''desk''" 1]
    DestroyGLTextures_desk_registry
  by (simp add: FindTextureSlot_def FindTextureSlot_loop_step FindTextureSlot_loop_exit
      slot_read_def upload_calls_def desk_registry_def SceneManager_ctor_def)

section \<open>Staging\<close>

text \<open>
  C8. With a shader manager present, \<open>SetShaderColor\<close> stages the four components under
  \<open>objectColor\<close> and 0 (\<open>false\<close>) under \<open>bUseTexture\<close>, and changes nothing else.
\<close>

theorem SetShaderColor_stages_color_and_clears_flag:
  assumes "m_pShaderManager s = Some sh"
  shows "staged (SetShaderColor redColorValue greenColorValue blueColorValue alphaValue s)
           g_ColorValueName =
             Some (Vec4Value (vec4 redColorValue greenColorValue blueColorValue alphaValue)) \<and>
         staged (SetShaderColor redColorValue greenColorValue blueColorValue alphaValue s)
           g_UseTextureName = Some (IntValue 0) \<and>
         SetShaderColor redColorValue greenColorValue blueColorValue alphaValue s =
           s\<lparr>m_pShaderManager :=
               Some (sh(g_UseTextureName \<mapsto> IntValue 0,
                        g_ColorValueName \<mapsto>
                          Vec4Value (vec4 redColorValue greenColorValue blueColorValue
                                       alphaValue)))\<rparr>"
  using assms by (simp add: SetShaderColor_def Let_def staged_def setter_defs)

theorem SetShaderColor_stages_color_and_clears_flag_witness:
  "staged (SceneManager_ctor (Some staged_marble)) ''bUseTexture'' = Some (IntValue 1) \<and>
   staged (SetShaderColor 0x3F800000 0x3F000000 0 0x3F800000
             (SceneManager_ctor (Some staged_marble))) ''objectColor'' =
     Some (Vec4Value (vec4 0x3F800000 0x3F000000 0 0x3F800000)) \<and>
   staged (SetShaderColor 0x3F800000 0x3F000000 0 0x3F800000
             (SceneManager_ctor (Some staged_marble))) ''bUseTexture'' = Some (IntValue 0)"
  using SetShaderColor_stages_color_and_clears_flag
    [of "SceneManager_ctor (Some staged_marble)" staged_marble
        "0x3F800000" "0x3F000000" 0 "0x3F800000"]
  by (simp add: SceneManager_ctor_def staged_def staged_marble_def setter_defs)

lemma SetShaderColor_null_manager:
  "m_pShaderManager s = None \<Longrightarrow>
   SetShaderColor redColorValue greenColorValue blueColorValue alphaValue s = s"
  by (simp add: SetShaderColor_def)

text \<open>
  C3. On a registry that is not empty, with a tag that no material carries,
  \<open>SetShaderMaterial\<close> does stage values: \<open>FindMaterial\<close> has returned \<open>true\<close> without
  writing its parameter, so what is staged is the content the local \<open>material\<close> had
  before the call.
\<close>

theorem SetShaderMaterial_unmatched_tag_stages_local:
  assumes "m_objectMaterials s \<noteq> []"
    and "\<forall>m \<in> set (m_objectMaterials s). OBJECT_MATERIAL.tag m \<noteq> materialTag"
    and "m_pShaderManager s = Some sh"
  shows "SetShaderMaterial material0 materialTag s =
           Inr (s\<lparr>m_pShaderManager :=
                  Some (sh(''material.diffuseColor'' \<mapsto> Vec3Value (diffuseColor material0),
                           ''material.specularColor'' \<mapsto> Vec3Value (specularColor material0),
                           ''material.shininess'' \<mapsto> FloatValue (shininess material0)))\<rparr>)"
proof -
  from assms(1,2) have "FindMaterial s materialTag material0 = (True, material0)"
    by (simp add: FindMaterial_unmatched)
  with assms(1,3) show ?thesis
    by (simp add: SetShaderMaterial_def setter_defs)
qed

theorem SetShaderMaterial_unmatched_tag_stages_local_witness:
  "staged_marble ''material.diffuseColor'' =
     Some (Vec3Value (vec3 0x3F4CCCCD 0x3F4CCCCD 0x3F4CCCCD)) \<and>
   SetShaderMaterial stale_material ''glass''
     (DefineObjectMaterials (SceneManager_ctor (Some staged_marble))) =
   Inr ((DefineObjectMaterials (SceneManager_ctor (Some staged_marble)))
          \<lparr>m_pShaderManager :=
             Some (staged_marble
                    (''material.diffuseColor'' \<mapsto>
                        Vec3Value (vec3 0xDEADBEEF 0xDEADBEEF 0xDEADBEEF),
                     ''material.specularColor'' \<mapsto>
                        Vec3Value (vec3 0xDEADBEEF 0xDEADBEEF 0xDEADBEEF),
                     ''material.shininess'' \<mapsto> FloatValue 0xDEADBEEF))\<rparr>)"
  using SetShaderMaterial_unmatched_tag_stages_local
    [of "DefineObjectMaterials (SceneManager_ctor (Some staged_marble))" "''glass''"
        staged_marble stale_material]
  by (simp add: DefineObjectMaterials_def SceneManager_ctor_def material_defs
      stale_material_def staged_marble_def setter_defs)

lemma SetShaderMaterial_empty_registry:
  "m_objectMaterials s = [] \<Longrightarrow> SetShaderMaterial material0 materialTag s = Inr s"
  by (simp add: SetShaderMaterial_def)

lemma SetShaderMaterial_first_match:
  assumes "m_objectMaterials s = pre @ m1 # rest"
    and "\<forall>m \<in> set pre. OBJECT_MATERIAL.tag m \<noteq> materialTag"
    and "OBJECT_MATERIAL.tag m1 = materialTag"
    and "m_pShaderManager s = Some sh"
  shows "SetShaderMaterial material0 materialTag s =
           Inr (s\<lparr>m_pShaderManager :=
                  Some (sh(''material.diffuseColor'' \<mapsto> Vec3Value (diffuseColor m1),
                           ''material.specularColor'' \<mapsto> Vec3Value (specularColor m1),
                           ''material.shininess'' \<mapsto> FloatValue (shininess m1)))\<rparr>)"
proof -
  have "\<forall>j. 0 \<le> j \<and> j < length pre \<longrightarrow>
          OBJECT_MATERIAL.tag (m_objectMaterials s ! j) \<noteq> materialTag"
    using assms(1,2) by (simp add: nth_append)
  with FindMaterial_loop_first_match [of False 0 "length pre" s materialTag material0] assms(1,3)
  have "FindMaterial s materialTag material0 =
          (True, material0\<lparr>diffuseColor := diffuseColor m1,
                           specularColor := specularColor m1,
                           shininess := shininess m1\<rparr>)"
    by (simp add: FindMaterial_def)
  with assms(1,4) show ?thesis
    by (simp add: SetShaderMaterial_def setter_defs)
qed

section \<open>Transformations\<close>

lemmas float_defs = float_0_def float_1_def float_neg_0_def float_eq_def float_is_nan_def
  float_is_zero_def

lemma float_eq_literals:
  "float_eq float_0 float_0" "float_eq float_1 float_1" "float_eq float_neg_0 float_0"
  "\<not> float_eq float_1 float_0"
  by (simp_all add: float_defs)

lemma mat4_eq_identity4: "mat4_eq identity4 identity4"
  by (simp add: identity4_def float_eq_literals)

lemma mat3_eq_identity3: "mat3_eq identity3 identity3"
  by (simp add: identity3_def float_eq_literals)

lemma upper_left_of_identity:
  assumes "mat4_eq A identity4"
  shows "mat3_eq (glm_mat3 stand_in_glm A) identity3"
proof -
  obtain a b c d where A: "A = mat4 a b c d" by (cases A)
  obtain a0 a1 a2 a3 where a: "a = vec4 a0 a1 a2 a3" by (cases a)
  obtain b0 b1 b2 b3 where b: "b = vec4 b0 b1 b2 b3" by (cases b)
  obtain c0 c1 c2 c3 where c: "c = vec4 c0 c1 c2 c3" by (cases c)
  from assms show ?thesis
    by (simp add: A a b c stand_in_glm_def identity4_def identity3_def)
qed

lemma stand_in_glm_laws: "glm_identity_laws stand_in_glm"
  unfolding glm_identity_laws_def
proof (intro conjI allI impI)
  show "float_eq (glm_radians stand_in_glm float_0) float_0"
    by (simp add: stand_in_glm_def float_eq_literals)
  show "mat4_eq (glm_scale stand_in_glm (vec3 float_1 float_1 float_1)) identity4"
    by (simp add: stand_in_glm_def identity4_def float_eq_literals)
  show "mat4_eq (glm_translate stand_in_glm (vec3 float_0 float_0 float_0)) identity4"
    by (simp add: stand_in_glm_def identity4_def float_eq_literals)
next
  fix angle assume "float_eq angle float_0"
  then show "mat4_eq (glm_rotate stand_in_glm angle (vec3 float_1 float_0 float_0)) identity4"
    "mat4_eq (glm_rotate stand_in_glm angle (vec3 float_0 float_1 float_0)) identity4"
    "mat4_eq (glm_rotate stand_in_glm angle (vec3 float_0 float_0 float_1)) identity4"
    by (simp_all add: stand_in_glm_def mat4_eq_identity4)
next
  fix A B assume "mat4_eq A identity4 \<and> mat4_eq B identity4"
  then show "mat4_eq (glm_times stand_in_glm A B) identity4"
    by (simp add: stand_in_glm_def)
next
  fix A assume "mat4_eq A identity4"
  then have "mat3_eq (glm_mat3 stand_in_glm A) identity3"
    by (rule upper_left_of_identity)
  then show "mat3_eq (glm_transpose stand_in_glm
                (glm_inverse stand_in_glm (glm_mat3 stand_in_glm A))) identity3"
    by (simp add: stand_in_glm_def identity3_def float_eq_literals)
qed

text \<open>
  C6. With a shader manager present, \<open>SetTransformations\<close> stages under \<open>model\<close> the
  product translate(position) * rotate(radians(Z), z-axis) * rotate(radians(Y), y-axis) *
  rotate(radians(X), x-axis) * scale(scale), under \<open>normal\<close> the transposed inverse of the
  upper-left 3x3 part of that staged model matrix, and nothing else. For scale \<open>(1,1,1)\<close>,
  zero rotations and position \<open>(0,0,0)\<close>, on a GLM with the identity facts above, both
  staged matrices are equal to the identity.
\<close>

theorem SetTransformations_stages_model_and_normal:
  assumes "m_pShaderManager s = Some sh"
  shows
    "staged (SetTransformations G scaleXYZ XrotationDegrees YrotationDegrees ZrotationDegrees
               positionXYZ s) g_ModelName =
       Some (Mat4Value
         (glm_times G
           (glm_times G
             (glm_times G
               (glm_times G (glm_translate G positionXYZ)
                  (glm_rotate G (glm_radians G ZrotationDegrees)
                     (vec3 float_0 float_0 float_1)))
               (glm_rotate G (glm_radians G YrotationDegrees)
                  (vec3 float_0 float_1 float_0)))
             (glm_rotate G (glm_radians G XrotationDegrees)
                (vec3 float_1 float_0 float_0)))
           (glm_scale G scaleXYZ))) \<and>
     (\<forall>M. staged (SetTransformations G scaleXYZ XrotationDegrees YrotationDegrees
                    ZrotationDegrees positionXYZ s) g_ModelName = Some (Mat4Value M) \<longrightarrow>
          staged (SetTransformations G scaleXYZ XrotationDegrees YrotationDegrees
                    ZrotationDegrees positionXYZ s) ''normal'' =
            Some (Mat3Value (glm_transpose G (glm_inverse G (glm_mat3 G M))))) \<and>
     (\<forall>name. name \<noteq> g_ModelName \<and> name \<noteq> ''normal'' \<longrightarrow>
          staged (SetTransformations G scaleXYZ XrotationDegrees YrotationDegrees
                    ZrotationDegrees positionXYZ s) name = staged s name) \<and>
     (glm_identity_laws G \<longrightarrow>
        (\<exists>M N.
           staged (SetTransformations G (vec3 float_1 float_1 float_1) float_0 float_0 float_0
                     (vec3 float_0 float_0 float_0) s) g_ModelName = Some (Mat4Value M) \<and>
           mat4_eq M identity4 \<and>
           staged (SetTransformations G (vec3 float_1 float_1 float_1) float_0 float_0 float_0
                     (vec3 float_0 float_0 float_0) s) ''normal'' = Some (Mat3Value N) \<and>
           mat3_eq N identity3))"
proof (intro conjI)
  let ?model = "\<lambda>sc xd yd zd pos.
    glm_times G
      (glm_times G
        (glm_times G
          (glm_times G (glm_translate G pos)
             (glm_rotate G (glm_radians G zd) (vec3 float_0 float_0 float_1)))
          (glm_rotate G (glm_radians G yd) (vec3 float_0 float_1 float_0)))
        (glm_rotate G (glm_radians G xd) (vec3 float_1 float_0 float_0)))
      (glm_scale G sc)"
  have model: "staged (SetTransformations G sc xd yd zd pos s) g_ModelName =
                 Some (Mat4Value (?model sc xd yd zd pos))" for sc xd yd zd pos
    using assms
    by (simp add: SetTransformations_def Let_def staged_def setMat3Value_def setMat4Value_def
        g_ModelName_def)
  have normal: "staged (SetTransformations G sc xd yd zd pos s) ''normal'' =
                  Some (Mat3Value (glm_transpose G (glm_inverse G
                     (glm_mat3 G (?model sc xd yd zd pos)))))" for sc xd yd zd pos
    using assms
    by (simp add: SetTransformations_def Let_def staged_def setMat3Value_def setMat4Value_def)
  show "staged (SetTransformations G scaleXYZ XrotationDegrees YrotationDegrees
          ZrotationDegrees positionXYZ s) g_ModelName =
        Some (Mat4Value (?model scaleXYZ XrotationDegrees YrotationDegrees ZrotationDegrees
          positionXYZ))"
    by (rule model)
  show "\<forall>M. staged (SetTransformations G scaleXYZ XrotationDegrees YrotationDegrees
                    ZrotationDegrees positionXYZ s) g_ModelName = Some (Mat4Value M) \<longrightarrow>
          staged (SetTransformations G scaleXYZ XrotationDegrees YrotationDegrees
                    ZrotationDegrees positionXYZ s) ''normal'' =
            Some (Mat3Value (glm_transpose G (glm_inverse G (glm_mat3 G M))))"
    by (simp add: model normal)
  show "\<forall>name. name \<noteq> g_ModelName \<and> name \<noteq> ''normal'' \<longrightarrow>
          staged (SetTransformations G scaleXYZ XrotationDegrees YrotationDegrees
                    ZrotationDegrees positionXYZ s) name = staged s name"
    using assms
    by (simp add: SetTransformations_def Let_def staged_def setMat3Value_def setMat4Value_def)
  show "glm_identity_laws G \<longrightarrow>
        (\<exists>M N.
           staged (SetTransformations G (vec3 float_1 float_1 float_1) float_0 float_0 float_0
                     (vec3 float_0 float_0 float_0) s) g_ModelName = Some (Mat4Value M) \<and>
           mat4_eq M identity4 \<and>
           staged (SetTransformations G (vec3 float_1 float_1 float_1) float_0 float_0 float_0
                     (vec3 float_0 float_0 float_0) s) ''normal'' = Some (Mat3Value N) \<and>
           mat3_eq N identity3)"
  proof
    assume laws: "glm_identity_laws G"
    let ?I = "vec3 float_1 float_1 float_1" and ?O = "vec3 float_0 float_0 float_0"
    let ?M = "?model ?I float_0 float_0 float_0 ?O"
    from laws have rad: "float_eq (glm_radians G float_0) float_0"
      by (simp add: glm_identity_laws_def)
    from laws have S: "mat4_eq (glm_scale G ?I) identity4"
      and T: "mat4_eq (glm_translate G ?O) identity4"
      by (simp_all add: glm_identity_laws_def)
    from laws rad
    have RX: "mat4_eq (glm_rotate G (glm_radians G float_0) (vec3 float_1 float_0 float_0))
                identity4"
      and RY: "mat4_eq (glm_rotate G (glm_radians G float_0) (vec3 float_0 float_1 float_0))
                identity4"
      and RZ: "mat4_eq (glm_rotate G (glm_radians G float_0) (vec3 float_0 float_0 float_1))
                identity4"
      unfolding glm_identity_laws_def by blast+
    from laws have times: "mat4_eq (glm_times G A B) identity4"
      if "mat4_eq A identity4" "mat4_eq B identity4" for A B
      using that unfolding glm_identity_laws_def by blast
    from laws have nrm: "mat3_eq (glm_transpose G (glm_inverse G (glm_mat3 G A))) identity3"
      if "mat4_eq A identity4" for A
      using that unfolding glm_identity_laws_def by blast
    have M: "mat4_eq ?M identity4"
      by (intro times T RZ RY RX S)
    then have N: "mat3_eq (glm_transpose G (glm_inverse G (glm_mat3 G ?M))) identity3"
      by (rule nrm)
    from M N model [of ?I float_0 float_0 float_0 ?O] normal [of ?I float_0 float_0 float_0 ?O]
    show "\<exists>M N.
           staged (SetTransformations G ?I float_0 float_0 float_0 ?O s) g_ModelName =
             Some (Mat4Value M) \<and>
           mat4_eq M identity4 \<and>
           staged (SetTransformations G ?I float_0 float_0 float_0 ?O s) ''normal'' =
             Some (Mat3Value N) \<and>
           mat3_eq N identity3"
      by blast
  qed
qed

theorem SetTransformations_stages_model_and_normal_witness:
  "glm_identity_laws stand_in_glm \<and>
   staged (SetTransformations stand_in_glm (vec3 float_1 float_1 float_1)
             float_0 float_0 float_0 (vec3 float_0 float_0 float_0)
             (SceneManager_ctor (Some staged_marble))) ''model'' =
     Some (Mat4Value identity4) \<and>
   staged (SetTransformations stand_in_glm (vec3 float_1 float_1 float_1)
             float_0 float_0 float_0 (vec3 float_0 float_0 float_0)
             (SceneManager_ctor (Some staged_marble))) ''normal'' =
     Some (Mat3Value (mat3 (vec3 float_1 float_neg_0 float_0)
                           (vec3 float_neg_0 float_1 float_neg_0)
                           (vec3 float_0 float_neg_0 float_1))) \<and>
   mat3_eq (mat3 (vec3 float_1 float_neg_0 float_0)
                 (vec3 float_neg_0 float_1 float_neg_0)
                 (vec3 float_0 float_neg_0 float_1)) identity3 \<and>
   staged (SetTransformations stand_in_glm (vec3 float_1 float_1 float_1)
             float_0 float_0 float_0 (vec3 float_0 float_0 float_0)
             (SceneManager_ctor (Some staged_marble))) ''material.shininess'' =
     Some (FloatValue 0x42480000)"
  using SetTransformations_stages_model_and_normal
    [of "SceneManager_ctor (Some staged_marble)" staged_marble stand_in_glm
        "vec3 float_1 float_1 float_1" float_0 float_0 float_0
        "vec3 float_0 float_0 float_0"]
    stand_in_glm_laws
  by (simp add: SetTransformations_def Let_def staged_def setMat3Value_def setMat4Value_def
      g_ModelName_def SceneManager_ctor_def stand_in_glm_def identity4_def identity3_def
      float_eq_literals staged_marble_def setter_defs marbleMaterial_def)

text \<open>
  The order of the factors is visible in what is staged: on the stand-in, with 90 degrees
  about X and 45 degrees about Z, the staged model matrix is not the product taken with
  the X and Z rotations exchanged.
\<close>

lemma SetTransformations_order_is_observable:
  "staged (SetTransformations stand_in_glm (vec3 float_1 float_1 float_1)
             0x42B40000 float_0 0x42340000 (vec3 float_0 float_0 float_0)
             (SceneManager_ctor (Some staged_marble))) g_ModelName \<noteq>
   Some (Mat4Value
     (glm_times stand_in_glm
       (glm_times stand_in_glm
         (glm_times stand_in_glm
           (glm_times stand_in_glm
              (glm_translate stand_in_glm (vec3 float_0 float_0 float_0))
              (glm_rotate stand_in_glm (glm_radians stand_in_glm 0x42B40000)
                 (vec3 float_1 float_0 float_0)))
           (glm_rotate stand_in_glm (glm_radians stand_in_glm float_0)
              (vec3 float_0 float_1 float_0)))
         (glm_rotate stand_in_glm (glm_radians stand_in_glm 0x42340000)
            (vec3 float_0 float_0 float_1)))
       (glm_scale stand_in_glm (vec3 float_1 float_1 float_1))))"
  by (simp add: SetTransformations_def Let_def staged_def setMat3Value_def setMat4Value_def
      g_ModelName_def SceneManager_ctor_def stand_in_glm_def identity4_def
      float_defs)

lemma SetTransformations_null_manager:
  "m_pShaderManager s = None \<Longrightarrow>
   SetTransformations G scaleXYZ XrotationDegrees YrotationDegrees ZrotationDegrees
     positionXYZ s = s"
  by (simp add: SetTransformations_def Let_def)

end
